theory Spec2Isabelle
  imports Complex_Main "HOL-Library.Option_ord"
begin

section \<open>Data model (backend/models.py)\<close>

text \<open>
  The tables of \<^verbatim>\<open>models.py\<close> as records, a table as the list of its rows in the
  order in which the database engine yields them. A nullable column has an option
  type. A Python float that passed the range check of \<^verbatim>\<open>rate\<close> is finite, and the
  finite floats are rational numbers: a rating value is a \<open>rat\<close>, so that comparisons
  are exact. The columns \<^verbatim>\<open>Rating.rating\<close> and \<^verbatim>\<open>Movie.avg_rating\<close> are declared
  \<^verbatim>\<open>db.Float\<close>, a single-precision \<^verbatim>\<open>FLOAT\<close> of the store: a row holds what the column
  keeps of the value written to it, a function of the store taken as a parameter below.
  The averaging of the engine is modelled in exact rational arithmetic. The timestamps
  (\<^verbatim>\<open>rated_at\<close>, \<^verbatim>\<open>created_at\<close>) are left out: no operation modelled here reads them.
\<close>

record user_row =
  u_user_id :: int
  username :: string
  email :: string
  password_hash :: string

record movie =
  movie_id :: int
  title :: string
  genre :: "string option"
  release_year :: "int option"
  avg_rating :: "rat option"
  ratings_count :: "int option"
  poster_path :: "string option"

record rating_row =
  rating_id :: int
  user_id :: int
  r_movie_id :: int
  rating :: rat

text \<open>
  The table \<^verbatim>\<open>recommendations\<close> is not declared in \<^verbatim>\<open>models.py\<close>; the queries of
  \<^verbatim>\<open>app.py\<close> read its columns \<^verbatim>\<open>user_id\<close>, \<^verbatim>\<open>movie_id\<close> and \<^verbatim>\<open>reason\<close>.
\<close>

record recommendation =
  rec_user_id :: int
  rec_movie_id :: int
  reason :: string

record db =
  users :: "user_row list"
  movies :: "movie list"
  ratings :: "rating_row list"
  recommendations_tbl :: "recommendation list"

section \<open>Python values, library functions and the store's column types\<close>

text \<open>
  The result of Python's \<^verbatim>\<open>float(...)\<close>: a finite value, an infinity or a NaN.
\<close>

datatype pyfloat = Finite rat | PosInf | NegInf | NaN

text \<open>
  \<^verbatim>\<open>int(text)\<close> and \<^verbatim>\<open>float(text)\<close> are functions of the Python library; the model
  takes them as parameters. \<open>None\<close> stands for the exception they raise on a text
  they do not accept. \<open>float_column\<close> is the store's part: the value that a
  \<^verbatim>\<open>FLOAT\<close> column declared by \<^verbatim>\<open>db.Float\<close> (models.py, lines 21 and 30) keeps of a
  double written to it, which later statements and reads see. The column has single
  precision, so this is not the identity.
\<close>

record externals =
  py_int :: "string \<Rightarrow> int option"
  py_float :: "string \<Rightarrow> pyfloat option"
  float_column :: "rat \<Rightarrow> rat"

text \<open>
  The exceptions that no handler of \<^verbatim>\<open>app.py\<close> catches: \<^verbatim>\<open>ValueError\<close> of \<^verbatim>\<open>int\<close>,
  and the errors of the store: a value outside the range of its column
  (\<^verbatim>\<open>DataError\<close>), a row that breaks a foreign key (\<^verbatim>\<open>IntegrityError\<close>), a statement
  the store rejects (\<^verbatim>\<open>StoreError\<close>).
\<close>

datatype error = ValueError | StoreError | IntegrityError | DataError

text \<open>The range of an \<^verbatim>\<open>Integer\<close> column of the store configured in \<^verbatim>\<open>config.py\<close>.\<close>

definition int_column :: "int \<Rightarrow> bool" where
  "int_column n \<longleftrightarrow> - 2147483648 \<le> n \<and> n \<le> 2147483647"

text \<open>The chained comparison \<^verbatim>\<open>0 <= rating_val <= 5\<close>: false on NaN and the infinities.\<close>

fun rating_in_range :: "pyfloat \<Rightarrow> bool" where
  "rating_in_range (Finite q) = (0 \<le> q \<and> q \<le> 5)"
| "rating_in_range PosInf = False"
| "rating_in_range NegInf = False"
| "rating_in_range NaN = False"

section \<open>Query building blocks\<close>

text \<open>
  \<^verbatim>\<open>ORDER BY key DESC\<close> with no second key: rows with equal keys stay in the order
  in which the engine yields them (the order of the list). On a nullable column the
  order of \<open>option\<close> puts \<open>None\<close> below every value, so \<^verbatim>\<open>NULL\<close> comes last.
\<close>

definition order_by_desc :: "('a \<Rightarrow> 'k::linorder) \<Rightarrow> 'a list \<Rightarrow> 'a list" where
  "order_by_desc k xs = rev (sort_key k (rev xs))"

text \<open>\<^verbatim>\<open>query.first()\<close>: the first row that satisfies the filter, if any.\<close>

definition find_rating :: "int \<Rightarrow> int \<Rightarrow> rating_row list \<Rightarrow> rating_row option" where
  "find_rating uid mid rs = find (\<lambda>r. user_id r = uid \<and> r_movie_id r = mid) rs"

text \<open>Assigning to a field of the row object that \<^verbatim>\<open>first()\<close> returned.\<close>

fun update_first :: "('a \<Rightarrow> bool) \<Rightarrow> ('a \<Rightarrow> 'a) \<Rightarrow> 'a list \<Rightarrow> 'a list" where
  "update_first P f [] = []"
| "update_first P f (x # xs) = (if P x then f x # xs else x # update_first P f xs)"

text \<open>The auto-increment primary key of a new row.\<close>

definition next_rating_id :: "rating_row list \<Rightarrow> int" where
  "next_rating_id rs = fold max (map rating_id rs) 0 + 1"

section \<open>The rating write (backend/app.py, rate)\<close>

text \<open>
  What the store answers to the \<^verbatim>\<open>INSERT\<close> of a new rating row at the commit of line
  175: the movie id must fit its \<^verbatim>\<open>Integer\<close> column, and the foreign keys declared in
  \<^verbatim>\<open>models.py\<close> (lines 28 and 29) want a row of the user and a row of the movie.
\<close>

definition insert_error :: "int \<Rightarrow> int \<Rightarrow> db \<Rightarrow> error option" where
  "insert_error uid mid s =
     (if int_column mid
      then (if uid \<in> set (map u_user_id (users s)) \<and> mid \<in> set (map movie_id (movies s))
            then None else Some IntegrityError)
      else Some DataError)"

text \<open>
  Lines 168 to 175: update the row found, or add a new one, and commit. The commit of
  an update changes the rating column alone and cannot break a key; the commit of a new
  row raises what \<open>insert_error\<close> says, and then nothing is written.
\<close>

definition upsert_rating :: "externals \<Rightarrow> int \<Rightarrow> int \<Rightarrow> rat \<Rightarrow> db \<Rightarrow> error + db" where
  "upsert_rating lib uid mid v s =
     (case find_rating uid mid (ratings s) of
        Some r \<Rightarrow>
          Inr (s\<lparr>ratings := update_first (\<lambda>r. user_id r = uid \<and> r_movie_id r = mid)
                               (\<lambda>r. r\<lparr>rating := float_column lib v\<rparr>) (ratings s)\<rparr>)
      | None \<Rightarrow>
          (case insert_error uid mid s of
             Some e \<Rightarrow> Inl e
           | None \<Rightarrow>
               Inr (s\<lparr>ratings := ratings s @
                      [\<lparr>rating_id = next_rating_id (ratings s), user_id = uid,
                        r_movie_id = mid, rating = float_column lib v\<rparr>]\<rparr>)))"

text \<open>
  Whether the store accepts the write, and the store after an accepted write: the two
  parts of \<open>upsert_rating\<close>, named for the statements below.
\<close>

definition write_accepted :: "int \<Rightarrow> int \<Rightarrow> db \<Rightarrow> bool" where
  "write_accepted uid mid s \<longleftrightarrow>
     (case find_rating uid mid (ratings s) of
        Some r \<Rightarrow> True
      | None \<Rightarrow> insert_error uid mid s = None)"

definition written :: "externals \<Rightarrow> int \<Rightarrow> int \<Rightarrow> rat \<Rightarrow> db \<Rightarrow> db" where
  "written lib uid mid v s =
     (case find_rating uid mid (ratings s) of
        Some r \<Rightarrow>
          s\<lparr>ratings := update_first (\<lambda>r. user_id r = uid \<and> r_movie_id r = mid)
                          (\<lambda>r. r\<lparr>rating := float_column lib v\<rparr>) (ratings s)\<rparr>
      | None \<Rightarrow>
          s\<lparr>ratings := ratings s @
             [\<lparr>rating_id = next_rating_id (ratings s), user_id = uid,
               r_movie_id = mid, rating = float_column lib v\<rparr>]\<rparr>)"

text \<open>\<^verbatim>\<open>AVG\<close> over the selected rows: \<^verbatim>\<open>NULL\<close> when there is none.\<close>

definition sql_avg :: "rat list \<Rightarrow> rat option" where
  "sql_avg vs = (if vs = [] then None else Some (sum_list vs / of_nat (length vs)))"

text \<open>
  \<^verbatim>\<open>ROUND(x, 2)\<close> of an approximate value, as \<^verbatim>\<open>AVG\<close> over a \<^verbatim>\<open>FLOAT\<close> column is: to
  the nearest hundredth, a half to the even neighbour (the rule of the C library).
\<close>

definition round_half_even :: "rat \<Rightarrow> int" where
  "round_half_even y =
     (if y - of_int \<lfloor>y\<rfloor> < 1 / 2 then \<lfloor>y\<rfloor>
      else if 1 / 2 < y - of_int \<lfloor>y\<rfloor> then \<lfloor>y\<rfloor> + 1
      else if even \<lfloor>y\<rfloor> then \<lfloor>y\<rfloor> else \<lfloor>y\<rfloor> + 1)"

definition sql_round2 :: "rat \<Rightarrow> rat" where
  "sql_round2 x = of_int (round_half_even (x * 100)) / 100"

text \<open>
  Lines 180 to 186, the \<^verbatim>\<open>UPDATE movies\<close> statement: only the rows of the movie
  \<open>mid\<close> change; \<^verbatim>\<open>COALESCE(..., 0)\<close> replaces the \<^verbatim>\<open>NULL\<close> of an empty average.
  The rounded mean goes into the \<^verbatim>\<open>FLOAT\<close> column \<^verbatim>\<open>avg_rating\<close>, which keeps
  \<open>float_column\<close> of it; the literal 0 is kept as it is.
\<close>

definition movie_ratings :: "int \<Rightarrow> db \<Rightarrow> rat list" where
  "movie_ratings mid s = map rating (filter (\<lambda>r. r_movie_id r = mid) (ratings s))"

definition update_aggregates :: "externals \<Rightarrow> int \<Rightarrow> db \<Rightarrow> db" where
  "update_aggregates lib mid s =
     s\<lparr>movies := map (\<lambda>m. if movie_id m = mid
          then m\<lparr>ratings_count := Some (int (length (movie_ratings mid s))),
                 avg_rating := Some (case sql_avg (movie_ratings mid s) of
                                       None \<Rightarrow> 0
                                     | Some a \<Rightarrow> float_column lib (sql_round2 a))\<rparr>
          else m) (movies s)\<rparr>"

section \<open>The stored procedure \<^verbatim>\<open>generate_recommendations_for_user_v2\<close>\<close>

text \<open>
  Modelled from the spec: the procedure \<^verbatim>\<open>generate_recommendations_for_user_v2\<close>
  that \<^verbatim>\<open>app.py\<close> calls is SQL of the repository with no source file at hand. The
  definitions of this section follow the words of sections 4.1, 4.2, 4.4 and 4.6 of
  the specification: the Rating Store Accessor's \<^verbatim>\<open>ratedMovieIds\<close>, the Movie Catalog
  Accessor's \<^verbatim>\<open>topRated\<close> (the Fallback Selector), and the nine steps of the
  Recommendation Generator.
\<close>

definition ratedMovieIds :: "int \<Rightarrow> db \<Rightarrow> int set" where
  "ratedMovieIds uid s = set (map r_movie_id (filter (\<lambda>r. user_id r = uid) (ratings s)))"

text \<open>
  Modelled from the spec: \<^verbatim>\<open>topRated(excluding, limit)\<close>, ordered by \<^verbatim>\<open>avg_rating\<close>
  descending, ties broken by movie id ascending.
\<close>

definition topRated :: "int set \<Rightarrow> nat \<Rightarrow> movie list \<Rightarrow> movie list" where
  "topRated excluding limit ms =
     take limit (order_by_desc avg_rating
       (sort_key movie_id (filter (\<lambda>m. movie_id m \<notin> excluding) ms)))"

definition history :: "int \<Rightarrow> db \<Rightarrow> rating_row list" where
  "history uid s = filter (\<lambda>r. user_id r = uid) (ratings s)"

definition genre_of :: "int \<Rightarrow> movie list \<Rightarrow> string option" where
  "genre_of mid ms = (case find (\<lambda>m. movie_id m = mid) ms of None \<Rightarrow> None | Some m \<Rightarrow> genre m)"

text \<open>
  Modelled from the spec: step 4. The genres the user rated 4.0 or more; when there
  is none, the genre of the user's highest-rated movie (of the lowest movie id among
  equals).
\<close>

definition liked_genres :: "int \<Rightarrow> db \<Rightarrow> string list" where
  "liked_genres uid s =
     (let liked = List.map_filter
            (\<lambda>r. if 4 \<le> rating r then genre_of (r_movie_id r) (movies s) else None)
            (history uid s)
      in if liked \<noteq> [] then liked
         else (case order_by_desc rating (sort_key r_movie_id (history uid s)) of
                 [] \<Rightarrow> []
               | r # _ \<Rightarrow> (case genre_of (r_movie_id r) (movies s) of
                              None \<Rightarrow> [] | Some g \<Rightarrow> [g])))"

text \<open>
  Modelled from the spec: steps 5 to 7. The unrated catalog movies of a liked genre,
  ranked by \<^verbatim>\<open>avg_rating\<close> descending, then \<^verbatim>\<open>ratings_count\<close> descending, then
  movie id ascending; the top \<open>limit\<close> of them.
\<close>

definition in_liked_genre :: "string list \<Rightarrow> movie \<Rightarrow> bool" where
  "in_liked_genre gs m = (case genre m of None \<Rightarrow> False | Some g \<Rightarrow> g \<in> set gs)"

definition personalized :: "int \<Rightarrow> nat \<Rightarrow> db \<Rightarrow> movie list" where
  "personalized uid limit s =
     take limit (order_by_desc avg_rating (order_by_desc ratings_count (sort_key movie_id
       (filter (\<lambda>m. in_liked_genre (liked_genres uid s) m \<and> movie_id m \<notin> ratedMovieIds uid s)
          (movies s)))))"

definition liked_row :: "int \<Rightarrow> movie \<Rightarrow> recommendation" where
  "liked_row uid m =
     \<lparr>rec_user_id = uid, rec_movie_id = movie_id m,
      reason = ''Because you liked '' @ (case genre m of None \<Rightarrow> [] | Some g \<Rightarrow> g)\<rparr>"

definition fallback_row :: "int \<Rightarrow> movie \<Rightarrow> recommendation" where
  "fallback_row uid m =
     \<lparr>rec_user_id = uid, rec_movie_id = movie_id m, reason = ''Top rated fallback''\<rparr>"

text \<open>
  Modelled from the spec: steps 1 to 8. A user without ratings gets the Fallback
  Selector's list; otherwise the personalized list, filled up to \<open>limit\<close> from the
  Fallback Selector without the movies already chosen or rated.
\<close>

definition generate :: "int \<Rightarrow> nat \<Rightarrow> db \<Rightarrow> recommendation list" where
  "generate uid limit s =
     (if history uid s = []
      then map (fallback_row uid) (topRated (ratedMovieIds uid s) limit (movies s))
      else let chosen = personalized uid limit s;
               fill = topRated (ratedMovieIds uid s \<union> set (map movie_id chosen))
                        (limit - length chosen) (movies s)
           in map (liked_row uid) chosen @ map (fallback_row uid) fill)"

text \<open>
  Modelled from the spec: step 9. The user's persisted rows are replaced by the new
  list, in rank order; the rows of the other users stay.
\<close>

definition generate_recommendations_for_user_v2 :: "int \<Rightarrow> int \<Rightarrow> db \<Rightarrow> db" where
  "generate_recommendations_for_user_v2 uid limit s =
     s\<lparr>recommendations_tbl :=
         filter (\<lambda>r. rec_user_id r \<noteq> uid) (recommendations_tbl s) @ generate uid (nat limit) s\<rparr>"

section \<open>The route \<^verbatim>\<open>/rate\<close>\<close>

text \<open>
  \<^verbatim>\<open>jsonify({"error": msg}), status\<close> and \<^verbatim>\<open>jsonify({"ok": True})\<close>; \<open>Uncaught\<close> is
  the answer to a request whose handler raised: the status 500, and nothing written.
\<close>

datatype response = JsonError string nat | JsonOk | Uncaught error

text \<open>
  The two statements after the commit run inside \<^verbatim>\<open>try\<close> blocks whose \<^verbatim>\<open>except\<close>
  branch prints and goes on. Whether the store raises there is decided outside the
  program: it is an input of the model. A statement that raises runs in a transaction
  of its own, which is rolled back, so it leaves the store as it was.
\<close>

record side_effects =
  aggregate_update_fails :: bool
  recommendation_update_fails :: bool

definition after_commit :: "externals \<Rightarrow> side_effects \<Rightarrow> int \<Rightarrow> int \<Rightarrow> db \<Rightarrow> db" where
  "after_commit lib env uid mid s1 =
     (let s2 = (if aggregate_update_fails env then s1 else update_aggregates lib mid s1)
      in if recommendation_update_fails env then s2
         else generate_recommendations_for_user_v2 uid 15 s2)"

text \<open>
  \<^verbatim>\<open>rate\<close>, lines 148 to 199. The session holds the user id after a login; the form
  fields are absent or a text. \<^verbatim>\<open>not movie_id\<close> holds for an absent and for an
  empty field.
\<close>

definition rate ::
  "externals \<Rightarrow> side_effects \<Rightarrow> int option \<Rightarrow> string option \<Rightarrow> string option \<Rightarrow> db \<Rightarrow> response \<times> db" where
  "rate lib env session_user_id movie_id_field rating_field s =
     (case session_user_id of
        None \<Rightarrow> (JsonError ''not authenticated'' 401, s)
      | Some uid \<Rightarrow>
         (case movie_id_field of
            None \<Rightarrow> (JsonError ''missing fields'' 400, s)
          | Some mt \<Rightarrow>
             (case rating_field of
                None \<Rightarrow> (JsonError ''missing fields'' 400, s)
              | Some rt \<Rightarrow>
                 if mt = [] \<or> rt = [] then (JsonError ''missing fields'' 400, s)
                 else
                  (case py_int lib mt of
                     None \<Rightarrow> (JsonError ''invalid rating or movie id'' 400, s)
                   | Some mid \<Rightarrow>
                      (case py_float lib rt of
                         None \<Rightarrow> (JsonError ''invalid rating or movie id'' 400, s)
                       | Some v \<Rightarrow>
                          (case v of
                             Finite q \<Rightarrow>
                               if rating_in_range v
                               then (case upsert_rating lib uid mid q s of
                                       Inl e \<Rightarrow> (Uncaught e, s)
                                     | Inr s1 \<Rightarrow> (JsonOk, after_commit lib env uid mid s1))
                               else (JsonError ''rating out of range'' 400, s)
                           | _ \<Rightarrow> (JsonError ''rating out of range'' 400, s)))))))"

section \<open>The route \<^verbatim>\<open>/recommendations\<close>\<close>

text \<open>The dictionaries handed to the template.\<close>

record rec_dict =
  d_user_id :: int
  d_movie_id :: int
  d_title :: string
  d_genre :: "string option"
  d_avg_rating :: "rat option"
  d_poster_path :: "string option"
  d_reason :: string

datatype page = Redirect string | Rendered "rec_dict list"

text \<open>\<^verbatim>\<open>int(request.args.get("limit", 20))\<close>, line 209.\<close>

definition request_limit :: "externals \<Rightarrow> string option \<Rightarrow> int option" where
  "request_limit lib limit_arg = (case limit_arg of None \<Rightarrow> Some 20 | Some t \<Rightarrow> py_int lib t)"

text \<open>
  Lines 217 to 226: the user's rows of \<^verbatim>\<open>recommendations\<close> joined with their movie,
  \<^verbatim>\<open>ORDER BY m.avg_rating DESC\<close>.
\<close>

definition joined :: "int \<Rightarrow> db \<Rightarrow> (recommendation \<times> movie) list" where
  "joined uid s =
     concat (map (\<lambda>r. map (Pair r) (filter (\<lambda>m. rec_movie_id r = movie_id m) (movies s)))
               (filter (\<lambda>r. rec_user_id r = uid) (recommendations_tbl s)))"

definition joined_dict :: "recommendation \<times> movie \<Rightarrow> rec_dict" where
  "joined_dict p =
     \<lparr>d_user_id = rec_user_id (fst p), d_movie_id = movie_id (snd p), d_title = title (snd p),
      d_genre = genre (snd p), d_avg_rating = avg_rating (snd p),
      d_poster_path = poster_path (snd p), d_reason = reason (fst p)\<rparr>"

definition select_recommendations :: "int \<Rightarrow> db \<Rightarrow> rec_dict list" where
  "select_recommendations uid s =
     map joined_dict (order_by_desc (\<lambda>p. avg_rating (snd p)) (joined uid s))"

text \<open>
  Lines 231 to 238, the \<^verbatim>\<open>except\<close> branch: the movies whose id is not among the
  ids the user rated, \<^verbatim>\<open>ORDER BY avg_rating DESC LIMIT limit\<close>.
\<close>

definition sub :: "int \<Rightarrow> db \<Rightarrow> int list" where
  "sub uid s = map r_movie_id (filter (\<lambda>r. user_id r = uid) (ratings s))"

definition movies_fallback :: "int \<Rightarrow> nat \<Rightarrow> db \<Rightarrow> movie list" where
  "movies_fallback uid limit s =
     take limit (order_by_desc avg_rating
       (filter (\<lambda>m. movie_id m \<notin> set (sub uid s)) (movies s)))"

text \<open>Lines 240 to 248; \<^verbatim>\<open>float(m.avg_rating or 0)\<close> turns \<^verbatim>\<open>None\<close> into 0.\<close>

definition fallback_dict :: "int \<Rightarrow> movie \<Rightarrow> rec_dict" where
  "fallback_dict uid m =
     \<lparr>d_user_id = uid, d_movie_id = movie_id m, d_title = title m, d_genre = genre m,
      d_avg_rating = Some (case avg_rating m of None \<Rightarrow> 0 | Some a \<Rightarrow> a),
      d_poster_path = poster_path m, d_reason = ''Top rated fallback''\<rparr>"

text \<open>
  \<^verbatim>\<open>recommendations\<close>, lines 203 to 250. \<open>proc_fails\<close> says whether the \<^verbatim>\<open>try\<close> block
  (the procedure call and the select) raises; its transaction is then rolled back.
  A text that \<^verbatim>\<open>int\<close> rejects raises outside the \<^verbatim>\<open>try\<close>. The store rejects a
  negative \<^verbatim>\<open>LIMIT\<close>, and nothing catches an exception of the \<^verbatim>\<open>except\<close> branch.
\<close>

definition recommendations ::
  "externals \<Rightarrow> bool \<Rightarrow> int option \<Rightarrow> string option \<Rightarrow> db \<Rightarrow> (error + page) \<times> db" where
  "recommendations lib proc_fails session_user_id limit_arg s =
     (case session_user_id of
        None \<Rightarrow> (Inr (Redirect ''/login''), s)
      | Some uid \<Rightarrow>
         (case request_limit lib limit_arg of
            None \<Rightarrow> (Inl ValueError, s)
          | Some limit \<Rightarrow>
             if proc_fails
             then (if limit < 0 then (Inl StoreError, s)
                   else (Inr (Rendered (map (fallback_dict uid) (movies_fallback uid (nat limit) s))), s))
             else (let s' = generate_recommendations_for_user_v2 uid limit s
                   in (Inr (Rendered (select_recommendations uid s')), s'))))"

section \<open>Sequences of requests\<close>




section \<open>The top-rated list, in the words of the specification\<close>


section \<open>Concrete inputs\<close>

text \<open>
  A library that reads the few texts used below as Python does, a store function for
  the \<^verbatim>\<open>FLOAT\<close> column, and small stores: the
  scenario of the specification (user 1 rated the drama 1 with 5.0 and the comedy 2
  with 2.0), a store of one unrated movie, a store whose two movies have the same
  average, and a catalog of seventeen dramas.
\<close>

fun binary_exponent :: "nat \<Rightarrow> rat \<Rightarrow> int" where
  "binary_exponent 0 q = 0"
| "binary_exponent (Suc fuel) q =
     (if q < 1 then binary_exponent fuel (2 * q) - 1
      else if 2 \<le> q then binary_exponent fuel (q / 2) + 1
      else 0)"

definition two_to :: "int \<Rightarrow> rat" where
  "two_to e = (if 0 \<le> e then 2 ^ nat e else 1 / 2 ^ nat (- e))"

text \<open>
  A single-precision column: the nearest value with 24 significant bits (a half to
  the even neighbour), for a value within the range of the type.
\<close>

definition single_precision :: "rat \<Rightarrow> rat" where
  "single_precision q =
     (if q = 0 then 0
      else of_int (round_half_even (q / two_to (max (binary_exponent 300 \<bar>q\<bar>) (- 126) - 23)))
           * two_to (max (binary_exponent 300 \<bar>q\<bar>) (- 126) - 23))"

definition example_lib :: externals where
  "example_lib =
     \<lparr>py_int = (\<lambda>t. if t = ''1'' then Some 1 else if t = ''2'' then Some 2
                     else if t = ''7'' then Some 7 else if t = ''20'' then Some 20 else None),
      py_float = (\<lambda>t. if t = ''4.0'' then Some (Finite 4) else if t = ''2.0'' then Some (Finite 2)
                       else if t = ''9'' then Some (Finite 9) else if t = ''nan'' then Some NaN
                       else if t = ''1.000000000931322574615478515625''
                         then Some (Finite (1 + 1 / 2 ^ 30))
                       else None),
      float_column = single_precision\<rparr>"

definition mk_user :: "int \<Rightarrow> string \<Rightarrow> user_row" where
  "mk_user i name = \<lparr>u_user_id = i, username = name, email = name @ ''@example.org'',
     password_hash = ''hash''\<rparr>"

definition mk_movie :: "int \<Rightarrow> string \<Rightarrow> rat \<Rightarrow> int \<Rightarrow> movie" where
  "mk_movie i g a c =
     \<lparr>movie_id = i, title = ''film'', genre = Some g, release_year = None,
      avg_rating = Some a, ratings_count = Some c, poster_path = None\<rparr>"

definition scenario_db :: db where
  "scenario_db =
     \<lparr>users = [mk_user 1 ''ann'', mk_user 7 ''bob''],
      movies = [mk_movie 1 ''Drama'' 5 1, mk_movie 2 ''Comedy'' 2 1,
                mk_movie 3 ''Drama'' (9 / 2) 0, mk_movie 4 ''Drama'' 3 0,
                mk_movie 5 ''Comedy'' 4 0],
      ratings = [\<lparr>rating_id = 1, user_id = 1, r_movie_id = 1, rating = 5\<rparr>,
                 \<lparr>rating_id = 2, user_id = 1, r_movie_id = 2, rating = 2\<rparr>],
      recommendations_tbl = []\<rparr>"




definition all_fail :: side_effects where
  "all_fail = \<lparr>aggregate_update_fails = True, recommendation_update_fails = True\<rparr>"

definition none_fail :: side_effects where
  "none_fail = \<lparr>aggregate_update_fails = False, recommendation_update_fails = False\<rparr>"


section \<open>Properties of the rating write\<close>

lemma find_update_first:
  "find P xs = Some r \<Longrightarrow> (\<And>x. P x \<Longrightarrow> P (f x)) \<Longrightarrow> find P (update_first P f xs) = Some (f r)"
  by (induction xs) (auto split: if_splits)

lemma find_append_new:
  "find P xs = None \<Longrightarrow> P y \<Longrightarrow> find P (xs @ [y]) = Some y"
  by (induction xs) (auto split: if_splits)

lemma find_rating_upsert:
  "\<exists>r. find_rating uid mid (ratings (written lib uid mid v s)) = Some r \<and>
       rating r = float_column lib v \<and> user_id r = uid \<and> r_movie_id r = mid"
proof (cases "find_rating uid mid (ratings s)")
  case None
  then show ?thesis
    by (simp add: written_def find_rating_def find_append_new)
next
  case (Some r)
  have "find (\<lambda>r. user_id r = uid \<and> r_movie_id r = mid)
          (update_first (\<lambda>r. user_id r = uid \<and> r_movie_id r = mid) (\<lambda>r. r\<lparr>rating := float_column lib v\<rparr>) (ratings s))
        = Some (r\<lparr>rating := float_column lib v\<rparr>)"
    using Some by (intro find_update_first) (simp_all add: find_rating_def)
  moreover have "user_id r = uid \<and> r_movie_id r = mid"
    using Some by (auto simp: find_rating_def find_Some_iff)
  ultimately show ?thesis
    using Some by (simp add: written_def find_rating_def)
qed

lemma ratings_update_aggregates [simp]: "ratings (update_aggregates lib mid s) = ratings s"
  by (simp add: update_aggregates_def)

lemma ratings_generate [simp]: "ratings (generate_recommendations_for_user_v2 uid n s) = ratings s"
  by (simp add: generate_recommendations_for_user_v2_def)


lemma ratings_after_commit [simp]: "ratings (after_commit lib env uid mid s) = ratings s"
  by (simp add: after_commit_def Let_def)

lemma users_written [simp]: "users (written lib uid mid v s) = users s"
  by (simp add: written_def split: option.splits)

lemma recommendations_tbl_written [simp]:
  "recommendations_tbl (written lib uid mid v s) = recommendations_tbl s"
  by (simp add: written_def split: option.splits)

lemma upsert_rating_accepted:
  "write_accepted uid mid s \<Longrightarrow> upsert_rating lib uid mid v s = Inr (written lib uid mid v s)"
  by (auto simp: write_accepted_def upsert_rating_def written_def split: option.splits)

lemma upsert_rating_refused:
  "\<not> write_accepted uid mid s \<Longrightarrow>
   find_rating uid mid (ratings s) = None \<and>
   (\<exists>e. insert_error uid mid s = Some e \<and> upsert_rating lib uid mid v s = Inl e)"
  by (auto simp: write_accepted_def upsert_rating_def split: option.splits)

lemma upsert_rating_InrD:
  "upsert_rating lib uid mid v s = Inr s1 \<Longrightarrow>
   write_accepted uid mid s \<and> s1 = written lib uid mid v s"
  by (auto simp: write_accepted_def upsert_rating_def written_def split: option.splits)

lemma insert_error_absent_movie:
  "mid \<notin> set (map movie_id (movies s)) \<Longrightarrow>
   insert_error uid mid s = Some (if int_column mid then IntegrityError else DataError)"
  by (simp add: insert_error_def)

lemma write_accepted_written: "write_accepted uid mid (written lib uid mid v s)"
  using find_rating_upsert [of uid mid lib v s] by (auto simp: write_accepted_def)


lemma movies_upsert [simp]: "movies (written lib uid mid v s) = movies s"
  by (simp add: written_def split: option.splits)

lemma rate_valid:
  assumes "py_int lib mt = Some mid" "py_float lib rt = Some (Finite q)" "0 \<le> q" "q \<le> 5"
    "mt \<noteq> []" "rt \<noteq> []" "write_accepted uid mid s"
  shows "rate lib env (Some uid) (Some mt) (Some rt) s
         = (JsonOk, after_commit lib env uid mid (written lib uid mid q s))"
  using assms by (simp add: rate_def upsert_rating_accepted)

lemma rate_refused:
  assumes "py_int lib mt = Some mid" "py_float lib rt = Some (Finite q)" "0 \<le> q" "q \<le> 5"
    "mt \<noteq> []" "rt \<noteq> []" "\<not> write_accepted uid mid s"
  shows "\<exists>e. insert_error uid mid s = Some e \<and>
             rate lib env (Some uid) (Some mt) (Some rt) s = (Uncaught e, s)"
  using assms upsert_rating_refused [OF assms(7), of lib q] by (auto simp: rate_def)

lemma rate_cases:
  "rate lib env sess mf rf s = (JsonError ''not authenticated'' 401, s) \<or>
   rate lib env sess mf rf s = (JsonError ''missing fields'' 400, s) \<or>
   rate lib env sess mf rf s = (JsonError ''invalid rating or movie id'' 400, s) \<or>
   rate lib env sess mf rf s = (JsonError ''rating out of range'' 400, s) \<or>
   (\<exists>e. rate lib env sess mf rf s = (Uncaught e, s)) \<or>
   (\<exists>uid mt rt mid q. sess = Some uid \<and> mf = Some mt \<and> rf = Some rt \<and> mt \<noteq> [] \<and> rt \<noteq> []
      \<and> py_int lib mt = Some mid \<and> py_float lib rt = Some (Finite q) \<and> 0 \<le> q \<and> q \<le> 5
      \<and> write_accepted uid mid s
      \<and> rate lib env sess mf rf s = (JsonOk, after_commit lib env uid mid (written lib uid mid q s)))"
proof (cases "\<exists>uid mt rt mid q. sess = Some uid \<and> mf = Some mt \<and> rf = Some rt \<and> mt \<noteq> [] \<and> rt \<noteq> []
      \<and> py_int lib mt = Some mid \<and> py_float lib rt = Some (Finite q) \<and> 0 \<le> q \<and> q \<le> 5")
  case True
  then obtain uid mt rt mid q where v: "sess = Some uid" "mf = Some mt" "rf = Some rt"
    "mt \<noteq> []" "rt \<noteq> []" "py_int lib mt = Some mid" "py_float lib rt = Some (Finite q)"
    "0 \<le> q" "q \<le> 5"
    by blast
  show ?thesis
  proof (cases "write_accepted uid mid s")
    case True
    from rate_valid [OF v(6,7,8,9,4,5) True, of env] v True show ?thesis
      by blast
  next
    case False
    from rate_refused [OF v(6,7,8,9,4,5) False, of env] v show ?thesis
      by blast
  qed
next
  case False
  then show ?thesis
    by (auto simp: rate_def split: option.splits pyfloat.splits)
qed

lemma rate_rejects:
  assumes "case rf of None \<Rightarrow> True
           | Some rt \<Rightarrow> (case py_float lib rt of None \<Rightarrow> True | Some v \<Rightarrow> \<not> rating_in_range v)"
  shows "snd (rate lib env sess mf rf s) = s"
    and "\<exists>msg. fst (rate lib env (Some uid) mf rf s) = JsonError msg 400"
  using assms by (auto simp: rate_def split: option.splits pyfloat.splits)

section \<open>Properties of the aggregate update\<close>

lemma movie_ratings_update_aggregates:
  "movie_ratings mid' (update_aggregates lib mid s) = movie_ratings mid' s"
  by (simp add: movie_ratings_def)



lemma filter_map_unchanged:
  "(\<And>x. P (f x) = P x) \<Longrightarrow> (\<And>x. P x \<Longrightarrow> f x = x) \<Longrightarrow> filter P (map f xs) = filter P xs"
  by (induction xs) auto


lemma update_aggregates_others:
  "filter (\<lambda>m. movie_id m \<noteq> mid) (movies (update_aggregates lib mid s))
   = filter (\<lambda>m. movie_id m \<noteq> mid) (movies s)"
  by (simp add: update_aggregates_def filter_map_unchanged)







section \<open>Properties of repeated rating writes\<close>















lemma sql_round2_examples:
  "sql_round2 3 = 3" "sql_round2 2 = 2" "sql_round2 4 = 4" "sql_round2 (1 / 8) = 3 / 25"
  by code_simp+

lemma single_precision_examples:
  "single_precision 4 = 4" "single_precision 2 = 2" "single_precision (1 + 1 / 2 ^ 30) = 1"
  by code_simp+

section \<open>Properties of the ordering and of the generator\<close>

lemma set_order_by_desc [simp]: "set (order_by_desc k xs) = set xs"
  by (simp add: order_by_desc_def)

lemma length_order_by_desc [simp]: "length (order_by_desc k xs) = length xs"
  by (simp add: order_by_desc_def)

lemma distinct_order_by_desc [simp]: "distinct (order_by_desc k xs) = distinct xs"
  by (simp add: order_by_desc_def)





lemma in_topRated:
  "m \<in> set (topRated ex n ms) \<Longrightarrow> m \<in> set ms \<and> movie_id m \<notin> ex"
  by (auto simp: topRated_def dest: in_set_takeD)

lemma in_personalized:
  "m \<in> set (personalized uid n s) \<Longrightarrow> m \<in> set (movies s) \<and> movie_id m \<notin> ratedMovieIds uid s"
  by (auto simp: personalized_def dest: in_set_takeD)

lemma in_generate:
  assumes "r \<in> set (generate uid n s)"
  shows "rec_user_id r = uid \<and> rec_movie_id r \<notin> ratedMovieIds uid s"
  using assms
  by (auto simp: generate_def Let_def liked_row_def fallback_row_def
      dest!: in_topRated in_personalized split: if_splits)



lemma history_recommendations_tbl_update [simp]:
  "history uid (s\<lparr>recommendations_tbl := x\<rparr>) = history uid s"
  by (simp add: history_def)

lemma ratedMovieIds_recommendations_tbl_update [simp]:
  "ratedMovieIds uid (s\<lparr>recommendations_tbl := x\<rparr>) = ratedMovieIds uid s"
  by (simp add: ratedMovieIds_def)

lemma liked_genres_recommendations_tbl_update [simp]:
  "liked_genres uid (s\<lparr>recommendations_tbl := x\<rparr>) = liked_genres uid s"
  unfolding liked_genres_def
  by (simp add: Let_def cong: if_cong list.case_cong option.case_cong)

lemma personalized_recommendations_tbl_update [simp]:
  "personalized uid n (s\<lparr>recommendations_tbl := x\<rparr>) = personalized uid n s"
  unfolding personalized_def by simp

lemma generate_recommendations_tbl_update [simp]:
  "generate uid n (s\<lparr>recommendations_tbl := x\<rparr>) = generate uid n s"
  unfolding generate_def
  by (simp add: Let_def cong: if_cong)

lemma filter_user_generate:
  "filter (\<lambda>r. rec_user_id r = uid) (generate uid n s) = generate uid n s"
  "filter (\<lambda>r. rec_user_id r \<noteq> uid) (generate uid n s) = []"
  using in_generate [of _ uid n s] by (auto simp: filter_empty_conv filter_id_conv)

lemma user_rows_after_generate:
  "filter (\<lambda>r. rec_user_id r = uid) (recommendations_tbl (generate_recommendations_for_user_v2 uid l s))
   = generate uid (nat l) s"
  by (simp add: generate_recommendations_for_user_v2_def filter_user_generate)


section \<open>Properties of the recommendation read\<close>

lemma sub_ratedMovieIds: "set (sub uid s) = ratedMovieIds uid s"
  by (simp add: sub_def ratedMovieIds_def)

lemma in_joined:
  assumes "p \<in> set (joined uid s)"
  shows "fst p \<in> set (recommendations_tbl s) \<and> rec_user_id (fst p) = uid \<and>
         snd p \<in> set (movies s) \<and> rec_movie_id (fst p) = movie_id (snd p)"
  using assms by (auto simp: joined_def)

lemma in_select_recommendations:
  assumes "d \<in> set (select_recommendations uid s)"
  shows "\<exists>p\<in>set (joined uid s). d = joined_dict p"
  using assms by (auto simp: select_recommendations_def)

lemma in_movies_fallback:
  "m \<in> set (movies_fallback uid n s) \<Longrightarrow> m \<in> set (movies s) \<and> movie_id m \<notin> set (sub uid s)"
  by (auto simp: movies_fallback_def dest: in_set_takeD)

lemma select_after_generate_unrated:
  assumes "d \<in> set (select_recommendations uid (generate_recommendations_for_user_v2 uid l s))"
  shows "d_movie_id d \<notin> ratedMovieIds uid s"
proof -
  let ?s' = "generate_recommendations_for_user_v2 uid l s"
  from in_select_recommendations [OF assms] obtain p
    where p: "p \<in> set (joined uid ?s')" and d: "d = joined_dict p"
    by blast
  from in_joined [OF p] have "fst p \<in> set (filter (\<lambda>r. rec_user_id r = uid) (recommendations_tbl ?s'))"
    and same: "rec_movie_id (fst p) = movie_id (snd p)"
    by simp_all
  then have "fst p \<in> set (generate uid (nat l) s)"
    by (simp only: user_rows_after_generate)
  then have "rec_movie_id (fst p) \<notin> ratedMovieIds uid s"
    by (simp add: in_generate)
  with same d show ?thesis
    by (simp add: joined_dict_def)
qed

section \<open>Properties of the top-rated lists\<close>












section \<open>Repeated reads and list lengths\<close>








section \<open>The claims about the rating write\<close>

text \<open>
  C8, as stated, fails: the column \<^verbatim>\<open>rating\<close> is a single-precision \<^verbatim>\<open>FLOAT\<close>, and
  \<^verbatim>\<open>float\<close> yields a double. User 7 rates movie 1 with the value \<open>1 + 1 / 2 ^ 30\<close>, which
  is a double within \<open>[0, 5]\<close>; the write succeeds, and the read of the rating of user 7
  for movie 1 returns 1.
\<close>

theorem float_column_counterexample:
  "py_float example_lib ''1.000000000931322574615478515625'' = Some (Finite (1 + 1 / 2 ^ 30)) \<and>
   rating_in_range (Finite (1 + 1 / 2 ^ 30)) \<and>
   fst (rate example_lib none_fail (Some 7) (Some ''1'')
          (Some ''1.000000000931322574615478515625'') scenario_db) = JsonOk \<and>
   map_option rating
     (find_rating 7 1
        (ratings (snd (rate example_lib none_fail (Some 7) (Some ''1'')
                         (Some ''1.000000000931322574615478515625'') scenario_db))))
   = Some 1 \<and>
   (1 :: rat) < 1 + 1 / 2 ^ 30"
  by code_simp

text \<open>
  C8, amended. For every rating value \<open>r\<close> with \<open>0 \<le> r \<le> 5\<close> whose write the store
  accepts, writing the rating of a user for a movie through \<^verbatim>\<open>rate\<close> and then reading
  the rating of that user for that movie (the query of line 168, \<open>find_rating\<close>) returns
  the value that the \<^verbatim>\<open>FLOAT\<close> column keeps of \<open>r\<close>, whatever the store held before and
  whatever happens to the two statements after the commit. It is \<open>r\<close> itself exactly
  when the column keeps \<open>r\<close> unchanged.
\<close>

theorem rate_then_get_rating:
  assumes "py_int lib mt = Some mid" and "py_float lib rt = Some (Finite r)"
    and "0 \<le> r" and "r \<le> 5" and "mt \<noteq> []" and "rt \<noteq> []"
    and "write_accepted uid mid s"
  shows "fst (rate lib env (Some uid) (Some mt) (Some rt) s) = JsonOk \<and>
         map_option rating
           (find_rating uid mid (ratings (snd (rate lib env (Some uid) (Some mt) (Some rt) s))))
         = Some (float_column lib r) \<and>
         (map_option rating
            (find_rating uid mid (ratings (snd (rate lib env (Some uid) (Some mt) (Some rt) s))))
          = Some r) = (float_column lib r = r)"
  using find_rating_upsert [of uid mid lib r s] by (auto simp: rate_valid [OF assms])

theorem rate_then_get_rating_witness:
  "py_int example_lib ''1'' = Some 1 \<and> py_float example_lib ''4.0'' = Some (Finite 4) \<and>
   write_accepted 7 1 scenario_db \<and> float_column example_lib 4 = 4 \<and>
   fst (rate example_lib all_fail (Some 7) (Some ''1'') (Some ''4.0'') scenario_db) = JsonOk \<and>
   map_option rating
     (find_rating 7 1
        (ratings (snd (rate example_lib all_fail (Some 7) (Some ''1'') (Some ''4.0'') scenario_db))))
   = Some 4"
proof -
  have h1: "py_int example_lib ''1'' = Some 1"
    by code_simp
  have h2: "py_float example_lib ''4.0'' = Some (Finite 4)"
    by code_simp
  have h3: "(0::rat) \<le> 4" and h4: "(4::rat) \<le> 5" and h5: "''1'' \<noteq> []" and h6: "''4.0'' \<noteq> []"
    by simp_all
  have h7: "write_accepted 7 1 scenario_db"
    by code_simp
  have fc: "float_column example_lib 4 = 4"
    by code_simp
  note t = rate_then_get_rating [OF h1 h2 h3 h4 h5 h6 h7, where env = all_fail]
  have ok: "fst (rate example_lib all_fail (Some 7) (Some ''1'') (Some ''4.0'') scenario_db) = JsonOk"
    by (rule t [THEN conjunct1])
  have rd: "map_option rating
     (find_rating 7 1
        (ratings (snd (rate example_lib all_fail (Some 7) (Some ''1'') (Some ''4.0'') scenario_db))))
   = Some 4"
    using t [THEN conjunct2, THEN conjunct1] by (simp only: fc)
  show ?thesis
    by (intro conjI; fact)
qed

text \<open>
  C10, as stated, fails: \<^verbatim>\<open>rate\<close> does not look the movie up, but the store does. The
  column \<^verbatim>\<open>Rating.movie_id\<close> is a foreign key to \<^verbatim>\<open>movies.movie_id\<close>, so the commit of
  line 175 raises for a new row whose movie id has no movie, and nothing catches it.
  User 1 rates the id 7, which no movie of the catalog has, with 4.0: the request ends
  in an \<^verbatim>\<open>IntegrityError\<close>, not in \<^verbatim>\<open>{"ok": true}\<close>, and the store is as it was.
\<close>

theorem rate_absent_movie_counterexample:
  "map movie_id (movies scenario_db) = [1, 2, 3, 4, 5] \<and>
   py_int example_lib ''7'' = Some 7 \<and> py_float example_lib ''4.0'' = Some (Finite 4) \<and>
   rate example_lib none_fail (Some 1) (Some ''7'') (Some ''4.0'') scenario_db
     = (Uncaught IntegrityError, scenario_db) \<and>
   find_rating 1 7 (ratings scenario_db) = None"
  by code_simp

text \<open>
  C10, amended. No answer of \<^verbatim>\<open>rate\<close> has the status 404. For an authenticated user,
  a text that \<^verbatim>\<open>int\<close> reads as a movie id and a value in \<open>[0, 5]\<close>: when the store accepts
  the write (the user already has a rating row for the id, or the id fits its column
  and the store holds a row of the user and a row of the movie), \<^verbatim>\<open>rate\<close> answers
  \<^verbatim>\<open>{"ok": true}\<close> and the store then holds a rating row of that user for that id with
  the value the column keeps. Otherwise the commit raises, the exception is not caught
  and nothing is written; this is so for every id without a movie for which the user
  has no rating row, with an \<^verbatim>\<open>IntegrityError\<close> when the id fits the column and a
  \<^verbatim>\<open>DataError\<close> when it does not.
\<close>

theorem rate_without_movie_row:
  assumes "py_int lib mt = Some mid" and "py_float lib rt = Some (Finite q)"
    and "0 \<le> q" and "q \<le> 5" and "mt \<noteq> []" and "rt \<noteq> []"
  shows "(\<forall>sess mf rf msg s0. fst (rate lib env sess mf rf s0) \<noteq> JsonError msg 404) \<and>
         (write_accepted uid mid s \<longrightarrow>
            fst (rate lib env (Some uid) (Some mt) (Some rt) s) = JsonOk \<and>
            (\<exists>row. find_rating uid mid
                      (ratings (snd (rate lib env (Some uid) (Some mt) (Some rt) s)))
                    = Some row \<and> rating row = float_column lib q)) \<and>
         (\<not> write_accepted uid mid s \<longrightarrow>
            (\<exists>e. rate lib env (Some uid) (Some mt) (Some rt) s = (Uncaught e, s))) \<and>
         (find_rating uid mid (ratings s) = None \<and> mid \<notin> set (map movie_id (movies s)) \<longrightarrow>
            rate lib env (Some uid) (Some mt) (Some rt) s
              = (Uncaught (if int_column mid then IntegrityError else DataError), s))"
proof -
  have no404: "fst (rate lib env sess mf rf s0) \<noteq> JsonError msg 404" for sess mf rf msg s0
    using rate_cases [of lib env sess mf rf s0] by auto
  have acc: "fst (rate lib env (Some uid) (Some mt) (Some rt) s) = JsonOk \<and>
            (\<exists>row. find_rating uid mid
                      (ratings (snd (rate lib env (Some uid) (Some mt) (Some rt) s)))
                    = Some row \<and> rating row = float_column lib q)"
    if "write_accepted uid mid s"
    using find_rating_upsert [of uid mid lib q s] by (auto simp: rate_valid [OF assms that])
  have ref: "\<exists>e. rate lib env (Some uid) (Some mt) (Some rt) s = (Uncaught e, s)"
    if "\<not> write_accepted uid mid s"
    using rate_refused [OF assms that, of env] by blast
  have absent: "rate lib env (Some uid) (Some mt) (Some rt) s
              = (Uncaught (if int_column mid then IntegrityError else DataError), s)"
    if "find_rating uid mid (ratings s) = None" and "mid \<notin> set (map movie_id (movies s))"
  proof -
    from that have "\<not> write_accepted uid mid s"
      by (simp add: write_accepted_def insert_error_absent_movie)
    from rate_refused [OF assms this, of env] that(2) show ?thesis
      by (auto simp: insert_error_absent_movie)
  qed
  from no404 acc ref absent show ?thesis
    by blast
qed

theorem rate_without_movie_row_witness:
  "py_int example_lib ''7'' = Some 7 \<and> py_int example_lib ''2'' = Some 2 \<and>
   py_float example_lib ''4.0'' = Some (Finite 4) \<and>
   find_rating 7 7 (ratings scenario_db) = None \<and>
   map movie_id (movies scenario_db) = [1, 2, 3, 4, 5] \<and> int_column 7 \<and>
   rate example_lib all_fail (Some 7) (Some ''7'') (Some ''4.0'') scenario_db
     = (Uncaught IntegrityError, scenario_db) \<and>
   write_accepted 7 2 scenario_db \<and>
   fst (rate example_lib all_fail (Some 7) (Some ''2'') (Some ''4.0'') scenario_db) = JsonOk \<and>
   (\<exists>row. find_rating 7 2
             (ratings (snd (rate example_lib all_fail (Some 7) (Some ''2'') (Some ''4.0'') scenario_db)))
           = Some row \<and> rating row = 4)"
proof -
  have h7: "py_int example_lib ''7'' = Some 7" and h2: "py_int example_lib ''2'' = Some 2"
    and hf: "py_float example_lib ''4.0'' = Some (Finite 4)"
    by code_simp+
  have h3: "(0::rat) \<le> 4" and h4: "(4::rat) \<le> 5" and h5: "''7'' \<noteq> []" and h6: "''4.0'' \<noteq> []"
    and h5': "''2'' \<noteq> []"
    by simp_all
  have none: "find_rating 7 7 (ratings scenario_db) = None"
    by code_simp
  have ids: "map movie_id (movies scenario_db) = [1, 2, 3, 4, 5]"
    by code_simp
  have absent: "7 \<notin> set (map movie_id (movies scenario_db))"
    by (simp only: ids) simp
  have col: "int_column 7"
    by code_simp
  have acc: "write_accepted 7 2 scenario_db"
    by code_simp
  have fc: "float_column example_lib 4 = 4"
    by code_simp
  note a = rate_without_movie_row [OF h7 hf h3 h4 h5 h6, where env = all_fail and uid = 7
      and s = scenario_db]
  note b = rate_without_movie_row [OF h2 hf h3 h4 h5' h6, where env = all_fail and uid = 7
      and s = scenario_db]
  have r1: "rate example_lib all_fail (Some 7) (Some ''7'') (Some ''4.0'') scenario_db
              = (Uncaught IntegrityError, scenario_db)"
    using a [THEN conjunct2, THEN conjunct2, THEN conjunct2] none absent col by simp
  have r2: "fst (rate example_lib all_fail (Some 7) (Some ''2'') (Some ''4.0'') scenario_db) = JsonOk"
    using b [THEN conjunct2, THEN conjunct1] acc by simp
  have r3: "\<exists>row. find_rating 7 2
             (ratings (snd (rate example_lib all_fail (Some 7) (Some ''2'') (Some ''4.0'') scenario_db)))
           = Some row \<and> rating row = 4"
    using b [THEN conjunct2, THEN conjunct1] acc by (simp add: fc)
  show ?thesis
    by (intro conjI; fact)
qed

text \<open>
  C6. When the rating write succeeded (the store accepted it at the commit of line
  175), a failure of the aggregate update or of the regeneration of the
  recommendations (either or both) neither undoes the write nor changes the answer:
  \<^verbatim>\<open>rate\<close> answers \<^verbatim>\<open>{"ok": true}\<close> and the rating rows are those of the committed write,
  as they are when nothing fails.
\<close>

theorem side_effect_failure_is_not_fatal:
  assumes "py_int lib mt = Some mid" and "py_float lib rt = Some (Finite q)"
    and "0 \<le> q" and "q \<le> 5" and "mt \<noteq> []" and "rt \<noteq> []"
    and "upsert_rating lib uid mid q s = Inr s1"
  shows "fst (rate lib env (Some uid) (Some mt) (Some rt) s) = JsonOk \<and>
         ratings (snd (rate lib env (Some uid) (Some mt) (Some rt) s)) = ratings s1 \<and>
         ratings (snd (rate lib env (Some uid) (Some mt) (Some rt) s))
           = ratings (snd (rate lib none_fail (Some uid) (Some mt) (Some rt) s))"
proof -
  from upsert_rating_InrD [OF assms(7)]
  have acc: "write_accepted uid mid s" and s1: "s1 = written lib uid mid q s"
    by simp_all
  show ?thesis
    by (simp add: rate_valid [OF assms(1-6) acc] s1)
qed

theorem side_effect_failure_is_not_fatal_witness:
  "aggregate_update_fails all_fail \<and> recommendation_update_fails all_fail \<and>
   upsert_rating example_lib 1 2 4 scenario_db = Inr (written example_lib 1 2 4 scenario_db) \<and>
   fst (rate example_lib all_fail (Some 1) (Some ''2'') (Some ''4.0'') scenario_db) = JsonOk \<and>
   map rating (ratings (snd (rate example_lib all_fail (Some 1) (Some ''2'') (Some ''4.0'') scenario_db)))
     = [5, 4]"
proof -
  have f1: "aggregate_update_fails all_fail" and f2: "recommendation_update_fails all_fail"
    by code_simp+
  have h1: "py_int example_lib ''2'' = Some 2" and h2: "py_float example_lib ''4.0'' = Some (Finite 4)"
    by code_simp+
  have h3: "(0::rat) \<le> 4" and h4: "(4::rat) \<le> 5" and h5: "''2'' \<noteq> []" and h6: "''4.0'' \<noteq> []"
    by simp_all
  have h7: "upsert_rating example_lib 1 2 4 scenario_db = Inr (written example_lib 1 2 4 scenario_db)"
    by code_simp
  have rows: "map rating (ratings (written example_lib 1 2 4 scenario_db)) = [5, 4]"
    by code_simp
  note t = side_effect_failure_is_not_fatal [OF h1 h2 h3 h4 h5 h6 h7, where env = all_fail]
  have ok: "fst (rate example_lib all_fail (Some 1) (Some ''2'') (Some ''4.0'') scenario_db) = JsonOk"
    by (rule t [THEN conjunct1])
  have "map rating (ratings (snd (rate example_lib all_fail (Some 1) (Some ''2'') (Some ''4.0'') scenario_db)))
     = [5, 4]"
    by (simp only: t [THEN conjunct2, THEN conjunct1] rows)
  with f1 f2 h7 ok show ?thesis
    by (intro conjI)
qed

text \<open>
  C4. For every rating input that is absent, that \<^verbatim>\<open>float\<close> rejects, or whose value is
  not in \<open>[0, 5]\<close> (a NaN and the infinities included), \<^verbatim>\<open>rate\<close> leaves the store as it
  was, and for an authenticated user it answers an error of status 400, whatever
  the movie field holds.
\<close>

theorem invalid_rating_is_rejected:
  assumes "case rf of None \<Rightarrow> True
           | Some rt \<Rightarrow> (case py_float lib rt of None \<Rightarrow> True | Some v \<Rightarrow> \<not> rating_in_range v)"
  shows "snd (rate lib env sess mf rf s) = s \<and>
         (\<exists>msg. fst (rate lib env (Some uid) mf rf s) = JsonError msg 400)"
  using rate_rejects [OF assms] by blast

theorem invalid_rating_is_rejected_witness:
  "py_float example_lib ''9'' = Some (Finite 9) \<and> \<not> rating_in_range (Finite 9) \<and>
   rate example_lib none_fail (Some 1) (Some ''1'') (Some ''9'') scenario_db
     = (JsonError ''rating out of range'' 400, scenario_db) \<and>
   rate example_lib none_fail (Some 1) (Some ''1'') (Some ''nan'') scenario_db
     = (JsonError ''rating out of range'' 400, scenario_db) \<and>
   rate example_lib none_fail (Some 1) (Some ''1'') (Some ''abc'') scenario_db
     = (JsonError ''invalid rating or movie id'' 400, scenario_db)"
  using invalid_rating_is_rejected
    [where rf = "Some ''9''" and lib = example_lib and env = none_fail and sess = "Some 1"
       and mf = "Some ''1''" and s = scenario_db and uid = 1]
  by (simp add: example_lib_def rate_def)







section \<open>The claims about the recommendations\<close>

text \<open>
  C1. Whenever \<^verbatim>\<open>recommendations\<close> renders a list for a user, whatever the limit, no
  entry of the list is a movie whose id is among the ids of the movies the user rated:
  both when the procedure call succeeds (the list is read back from the rows the
  procedure stored) and when it raises (the list of the \<^verbatim>\<open>except\<close> branch). The
  rating rows are not changed by the request.
\<close>

theorem recommendations_exclude_rated:
  assumes "fst (recommendations lib proc_fails (Some uid) limit_arg s) = Inr (Rendered recs)"
  shows "(\<forall>d\<in>set recs. d_movie_id d \<notin> set (sub uid s)) \<and>
         ratings (snd (recommendations lib proc_fails (Some uid) limit_arg s)) = ratings s"
proof (cases "request_limit lib limit_arg")
  case None
  with assms show ?thesis
    by (simp add: recommendations_def)
next
  case (Some limit)
  show ?thesis
  proof (cases proc_fails)
    case True
    with Some assms have recs: "recs = map (fallback_dict uid) (movies_fallback uid (nat limit) s)"
      by (auto simp: recommendations_def split: if_splits)
    have "\<forall>d\<in>set recs. d_movie_id d \<notin> set (sub uid s)"
      unfolding recs using in_movies_fallback [of _ uid "nat limit" s]
      by (auto simp: fallback_dict_def)
    moreover have "ratings (snd (recommendations lib proc_fails (Some uid) limit_arg s)) = ratings s"
      using True Some by (simp add: recommendations_def)
    ultimately show ?thesis
      by blast
  next
    case False
    with Some assms have recs:
      "recs = select_recommendations uid (generate_recommendations_for_user_v2 uid limit s)"
      by (simp add: recommendations_def Let_def)
    have "\<forall>d\<in>set recs. d_movie_id d \<notin> set (sub uid s)"
      unfolding recs sub_ratedMovieIds using select_after_generate_unrated [of _ uid limit s]
      by blast
    moreover have "ratings (snd (recommendations lib proc_fails (Some uid) limit_arg s)) = ratings s"
      using False Some by (simp add: recommendations_def Let_def)
    ultimately show ?thesis
      by blast
  qed
qed

theorem recommendations_exclude_rated_witness:
  "sub 1 scenario_db = [1, 2] \<and>
   (\<exists>recs. fst (recommendations example_lib False (Some 1) None scenario_db) = Inr (Rendered recs) \<and>
      map d_movie_id recs = [3, 5, 4] \<and>
      list_all (\<lambda>d. d_movie_id d \<notin> set (sub 1 scenario_db)) recs) \<and>
   (\<exists>recs. fst (recommendations example_lib True (Some 1) None scenario_db) = Inr (Rendered recs) \<and>
      map d_movie_id recs = [3, 5, 4] \<and>
      list_all (\<lambda>d. d_movie_id d \<notin> set (sub 1 scenario_db)) recs)"
proof -
  have rated: "sub 1 scenario_db = [1, 2]"
    by code_simp
  let ?p = "case fst (recommendations example_lib False (Some 1) None scenario_db) of
              Inr (Rendered recs) \<Rightarrow> recs | _ \<Rightarrow> []"
  let ?f = "case fst (recommendations example_lib True (Some 1) None scenario_db) of
              Inr (Rendered recs) \<Rightarrow> recs | _ \<Rightarrow> []"
  have p: "fst (recommendations example_lib False (Some 1) None scenario_db) = Inr (Rendered ?p)"
    by code_simp
  have idp: "map d_movie_id ?p = [3, 5, 4]"
    by code_simp
  have f: "fst (recommendations example_lib True (Some 1) None scenario_db) = Inr (Rendered ?f)"
    by code_simp
  have idf: "map d_movie_id ?f = [3, 5, 4]"
    by code_simp
  from recommendations_exclude_rated [OF p, THEN conjunct1]
  have lp: "list_all (\<lambda>d. d_movie_id d \<notin> set (sub 1 scenario_db)) ?p"
    by (simp only: list_all_iff)
  from recommendations_exclude_rated [OF f, THEN conjunct1]
  have lf: "list_all (\<lambda>d. d_movie_id d \<notin> set (sub 1 scenario_db)) ?f"
    by (simp only: list_all_iff)
  show ?thesis
  proof (intro conjI exI)
    show "sub 1 scenario_db = [1, 2]" by (rule rated)
    show "fst (recommendations example_lib False (Some 1) None scenario_db) = Inr (Rendered ?p)"
      by (rule p)
    show "map d_movie_id ?p = [3, 5, 4]" by (rule idp)
    show "list_all (\<lambda>d. d_movie_id d \<notin> set (sub 1 scenario_db)) ?p" by (rule lp)
    show "fst (recommendations example_lib True (Some 1) None scenario_db) = Inr (Rendered ?f)"
      by (rule f)
    show "map d_movie_id ?f = [3, 5, 4]" by (rule idf)
    show "list_all (\<lambda>d. d_movie_id d \<notin> set (sub 1 scenario_db)) ?f" by (rule lf)
  qed
qed









end
